theory Spec2Isabelle
  imports Complex_Main
begin

section \<open>The game state store (GameManager.ts)\<close>

text \<open>
  The store is the zustand record \<open>GameState\<close> of GameManager.ts. A JavaScript
  \<open>number\<close> is taken as an exact real (rounding of doubles is not modelled), a lane
  index as an integer. The store's one-shot timers (\<open>setTimeout\<close>) are kept as a list
  of pending callbacks with their firing time on a clock counted in milliseconds; the
  haptic calls and the value written to \<open>localStorage\<close> are logged.
\<close>

datatype Status = Idle | Playing | GameOver

record GameState =
  status :: Status
  score :: real
  speed :: real
  baseSpeed :: real
  playerLane :: int
  isJumping :: bool
  screenShake :: bool
  highScore :: real
  boostActive :: bool
  magnetActive :: bool

text \<open>The three callbacks that the store hands to \<open>setTimeout\<close>.\<close>

datatype Callback = ClearShake | BoostExpire | MagnetExpire

record Timer =
  fireAt :: nat
  callback :: Callback

record World =
  gs :: GameState
  now :: nat
  timers :: "Timer list"
  stored :: "real option"
  haptics :: "nat list list"

text \<open>The initial store; \<open>hs\<close> is the high score parsed from \<open>localStorage\<close>.\<close>

definition initialState :: "real \<Rightarrow> GameState" where
  "initialState hs =
     \<lparr> status = Idle, score = 0, speed = 0.12, baseSpeed = 0.12, playerLane = 1,
       isJumping = False, screenShake = False, highScore = hs,
       boostActive = False, magnetActive = False \<rparr>"

definition initialWorld :: "real \<Rightarrow> World" where
  "initialWorld hs =
     \<lparr> gs = initialState hs, now = 0, timers = [], stored = None, haptics = [] \<rparr>"

text \<open>\<open>setTimeout(cb, ms)\<close>: a negative delay counts as zero.\<close>

definition setTimeout :: "Callback \<Rightarrow> int \<Rightarrow> World \<Rightarrow> World" where
  "setTimeout cb ms w =
     w\<lparr>timers := timers w @ [\<lparr>fireAt = now w + nat ms, callback = cb\<rparr>]\<rparr>"

definition triggerHaptic :: "nat list \<Rightarrow> World \<Rightarrow> World" where
  "triggerHaptic pat w = w\<lparr>haptics := haptics w @ [pat]\<rparr>"

definition startGame :: "World \<Rightarrow> World" where
  "startGame w =
     w\<lparr>gs := (gs w)\<lparr>status := Playing, score := 0, speed := 0.12, baseSpeed := 0.12,
                    playerLane := 1, isJumping := False, screenShake := False,
                    boostActive := False, magnetActive := False\<rparr>\<rparr>"

definition endGame :: "World \<Rightarrow> World" where
  "endGame w =
     (let newHighScore = max (score (gs w)) (highScore (gs w));
          w1 = w\<lparr>stored := Some newHighScore\<rparr>;
          w2 = triggerHaptic [100, 50, 100] w1;
          w3 = w2\<lparr>gs := (gs w2)\<lparr>status := GameOver, speed := 0,
                                highScore := newHighScore, screenShake := True\<rparr>\<rparr>
      in setTimeout ClearShake 500 w3)"

definition restartGame :: "World \<Rightarrow> World" where
  "restartGame w =
     w\<lparr>gs := (gs w)\<lparr>status := Playing, score := 0, speed := 0.12, baseSpeed := 0.12,
                    playerLane := 1, isJumping := False, screenShake := False,
                    boostActive := False, magnetActive := False\<rparr>\<rparr>"

definition incrementScore :: "real \<Rightarrow> World \<Rightarrow> World" where
  "incrementScore amount w =
     (let w1 = triggerHaptic [20] w
      in w1\<lparr>gs := (gs w1)\<lparr>score := score (gs w1) + amount\<rparr>\<rparr>)"

definition increaseSpeed :: "World \<Rightarrow> World" where
  "increaseSpeed w =
     w\<lparr>gs := (gs w)\<lparr>
          baseSpeed := min (baseSpeed (gs w) + 0.003) 0.4,
          speed := min (if boostActive (gs w) then baseSpeed (gs w) * 1.8
                        else baseSpeed (gs w)) 0.6\<rparr>\<rparr>"

definition setPlayerState :: "int \<Rightarrow> bool \<Rightarrow> World \<Rightarrow> World" where
  "setPlayerState lane jumping w =
     w\<lparr>gs := (gs w)\<lparr>playerLane := lane, isJumping := jumping\<rparr>\<rparr>"

definition triggerScreenShake :: "World \<Rightarrow> World" where
  "triggerScreenShake w =
     setTimeout ClearShake 500 (w\<lparr>gs := (gs w)\<lparr>screenShake := True\<rparr>\<rparr>)"

definition activateBoost :: "int \<Rightarrow> World \<Rightarrow> World" where
  "activateBoost durationMs w =
     (let bs = baseSpeed (gs w);
          w1 = w\<lparr>gs := (gs w)\<lparr>boostActive := True, speed := min (bs * 1.8) 0.6\<rparr>\<rparr>;
          w2 = triggerHaptic [40, 40, 40] w1
      in setTimeout BoostExpire durationMs w2)"

definition activateMagnet :: "int \<Rightarrow> World \<Rightarrow> World" where
  "activateMagnet durationMs w =
     (let w1 = w\<lparr>gs := (gs w)\<lparr>magnetActive := True\<rparr>\<rparr>;
          w2 = triggerHaptic [20, 20, 20] w1
      in setTimeout MagnetExpire durationMs w2)"

text \<open>
  What a timer's callback does when it fires: each reads the store at that moment
  (\<open>get()\<close>) and writes it (\<open>set\<close>); none of them schedules a timer.
\<close>

fun fire :: "Callback \<Rightarrow> GameState \<Rightarrow> GameState" where
  "fire ClearShake s = s\<lparr>screenShake := False\<rparr>"
| "fire BoostExpire s = s\<lparr>boostActive := False, speed := baseSpeed s\<rparr>"
| "fire MagnetExpire s = s\<lparr>magnetActive := False\<rparr>"

fun fireAll :: "Timer list \<Rightarrow> GameState \<Rightarrow> GameState" where
  "fireAll [] s = s"
| "fireAll (t # ts) s = fireAll ts (fire (callback t) s)"

text \<open>
  The clock moves to time \<open>T\<close>: the timers due by then fire in the order of their
  firing times, those with the same time in the order they were set (the sort is
  stable); the others stay pending.
\<close>

definition advanceTo :: "nat \<Rightarrow> World \<Rightarrow> World" where
  "advanceTo T w =
     w\<lparr>gs := fireAll (sort_key fireAt (filter (\<lambda>t. fireAt t \<le> T) (timers w))) (gs w),
        timers := filter (\<lambda>t. \<not> fireAt t \<le> T) (timers w),
        now := max T (now w)\<rparr>"

definition wait :: "nat \<Rightarrow> World \<Rightarrow> World" where
  "wait ms w = advanceTo (now w + ms) w"

text \<open>The defaults of the optional parameters.\<close>

definition incrementScoreDefault :: "World \<Rightarrow> World" where
  "incrementScoreDefault = incrementScore 1"

definition activateBoostDefault :: "World \<Rightarrow> World" where
  "activateBoostDefault = activateBoost 5000"

definition activateMagnetDefault :: "World \<Rightarrow> World" where
  "activateMagnetDefault = activateMagnet 8000"

text \<open>The effective speed of the progression model, as the specification writes it.\<close>

definition effectiveSpeed :: "GameState \<Rightarrow> real" where
  "effectiveSpeed s = (if boostActive s then min (baseSpeed s * 1.8) 0.6 else baseSpeed s)"

subsection \<open>Events and reachable states\<close>

datatype Event =
    StartGame | EndGame | RestartGame | IncrementScore real | IncreaseSpeed
  | SetPlayerState int bool | TriggerScreenShake | ActivateBoost int | ActivateMagnet int
  | Wait nat

fun applyEvent :: "Event \<Rightarrow> World \<Rightarrow> World" where
  "applyEvent StartGame w = startGame w"
| "applyEvent EndGame w = endGame w"
| "applyEvent RestartGame w = restartGame w"
| "applyEvent (IncrementScore a) w = incrementScore a w"
| "applyEvent IncreaseSpeed w = increaseSpeed w"
| "applyEvent (SetPlayerState l j) w = setPlayerState l j w"
| "applyEvent TriggerScreenShake w = triggerScreenShake w"
| "applyEvent (ActivateBoost d) w = activateBoost d w"
| "applyEvent (ActivateMagnet d) w = activateMagnet d w"
| "applyEvent (Wait ms) w = wait ms w"

fun run :: "Event list \<Rightarrow> World \<Rightarrow> World" where
  "run [] w = w"
| "run (e # es) w = run es (applyEvent e w)"

inductive reachable :: "World \<Rightarrow> bool" where
  init: "reachable (initialWorld hs)"
| step: "reachable w \<Longrightarrow> reachable (applyEvent e w)"

text \<open>
  A number that is a non-negative integer, and the events whose score amount is one
  (every call of \<open>incrementScore\<close> in the program passes 2, 3 or 5).
\<close>

definition isNonNegInteger :: "real \<Rightarrow> bool" where
  "isNonNegInteger x \<longleftrightarrow> 0 \<le> x \<and> of_int \<lfloor>x\<rfloor> = x"

fun naturalAmount :: "Event \<Rightarrow> bool" where
  "naturalAmount (IncrementScore a) = isNonNegInteger a"
| "naturalAmount e = True"

section \<open>The player motion model (Player.tsx)\<close>

text \<open>
  The component's state: the lane index and the jumping flag (React state), the time the
  jump started (\<open>Date.now()\<close>, in milliseconds) and the height \<open>position.y\<close> of the
  group, which is taken to be mounted. The smoothing of \<open>position.x\<close> and the tilt
  are presentation only and are left out. Each entry point reads \<open>status\<close> from the store, here the argument
  \<open>st\<close>, and the flag \<open>isJumping\<close> of the last render, here the field of the
  state it is applied to.
\<close>

datatype Cue = JumpCue | CollectCue | CrashCue | GameOverCue

record Player =
  laneIndex :: int
  isJumpingP :: bool
  jumpStartTime :: int
  posY :: real

definition LANES :: "real list" where
  "LANES = [-1.8, 0, 1.8]"

definition JUMP_HEIGHT :: real where
  "JUMP_HEIGHT = 2"

definition JUMP_DURATION :: real where
  "JUMP_DURATION = 0.45"

definition initialPlayer :: Player where
  "initialPlayer = \<lparr> laneIndex = 1, isJumpingP = False, jumpStartTime = 0, posY = 0 \<rparr>"

text \<open>\<open>jump\<close> returns the new state and the sounds it plays; \<open>t\<close> is \<open>Date.now()\<close>.\<close>

definition jump :: "Status \<Rightarrow> int \<Rightarrow> Player \<Rightarrow> Player \<times> Cue list" where
  "jump st t p =
     (if \<not> isJumpingP p \<and> st = Playing
      then (p\<lparr>isJumpingP := True, jumpStartTime := t\<rparr>, [JumpCue])
      else (p, []))"

definition moveLeft :: "Status \<Rightarrow> Player \<Rightarrow> Player" where
  "moveLeft st p =
     (if st = Playing then p\<lparr>laneIndex := max 0 (laneIndex p - 1)\<rparr> else p)"

definition moveRight :: "Status \<Rightarrow> Player \<Rightarrow> Player" where
  "moveRight st p =
     (if st = Playing
      then p\<lparr>laneIndex := min (int (length LANES) - 1) (laneIndex p + 1)\<rparr>
      else p)"

text \<open>The effect that runs when \<open>status\<close> changes.\<close>

definition resetOnStatus :: "Status \<Rightarrow> Player \<Rightarrow> Player" where
  "resetOnStatus st p =
     (if st = Playing then p\<lparr>laneIndex := 1, isJumpingP := False, posY := 0\<rparr> else p)"

text \<open>The effect that copies the component's state into the store.\<close>

definition syncPlayer :: "Player \<Rightarrow> World \<Rightarrow> World" where
  "syncPlayer p w = setPlayerState (laneIndex p) (isJumpingP p) w"

text \<open>
  The height that the jump physics of \<open>useFrame\<close> writes, \<open>elapsed\<close> seconds after
  the start of the jump, and whether the jump is over.
\<close>

definition jumpPhysics :: "real \<Rightarrow> real \<times> bool" where
  "jumpPhysics elapsed =
     (if elapsed < JUMP_DURATION
      then (let progress = elapsed / JUMP_DURATION
            in (4 * JUMP_HEIGHT * progress * (1 - progress), True))
      else (0, False))"

text \<open>
  One frame at time \<open>t\<close>. The test for the running bob reads the flag of the last
  render, not the one the jump physics has just cleared.
\<close>

definition playerFrame :: "Status \<Rightarrow> int \<Rightarrow> Player \<Rightarrow> Player" where
  "playerFrame st t p =
     (let p1 = (if isJumpingP p
                then (let elapsed = real_of_int (t - jumpStartTime p) / 1000;
                          (y, still) = jumpPhysics elapsed
                      in p\<lparr>posY := y, isJumpingP := still\<rparr>)
                else p)
      in if \<not> isJumpingP p \<and> st = Playing
         then p1\<lparr>posY := \<bar>sin (real_of_int t / 80)\<bar> * 0.15\<rparr>
         else p1)"

datatype PlayerEvent = Jump int | MoveLeft | MoveRight | Frame int | StatusChanged

fun applyPlayerEvent :: "Status \<Rightarrow> PlayerEvent \<Rightarrow> Player \<Rightarrow> Player" where
  "applyPlayerEvent st (Jump t) p = fst (jump st t p)"
| "applyPlayerEvent st MoveLeft p = moveLeft st p"
| "applyPlayerEvent st MoveRight p = moveRight st p"
| "applyPlayerEvent st (Frame t) p = playerFrame st t p"
| "applyPlayerEvent st StatusChanged p = resetOnStatus st p"

inductive playerReachable :: "Player \<Rightarrow> bool" where
  pinit: "playerReachable initialPlayer"
| pstep: "playerReachable p \<Longrightarrow> playerReachable (applyPlayerEvent st e p)"

section \<open>Obstacles and the collision test (Obstacles.tsx)\<close>

text \<open>
  An item is the spawned data (\<open>id\<close>, \<open>type\<close>, \<open>lane\<close>) with the mutable parts of
  its component: the position \<open>position.z\<close> of the group, the \<open>collected\<close> flag and
  the visibility. The group is taken to be mounted; the rotation and the bob of the
  collectibles are presentation only and are left out.
\<close>

datatype ObstacleType = Rock | Chilly | Coin | Magnet

record Item =
  ident :: string
  otype :: ObstacleType
  lane :: int
  posZ :: real
  collected :: bool
  visible :: bool

definition SPAWN_DISTANCE :: real where
  "SPAWN_DISTANCE = -60"

definition DESPAWN_DISTANCE :: real where
  "DESPAWN_DISTANCE = 8"

definition COLLISION_THRESHOLD_Z :: real where
  "COLLISION_THRESHOLD_Z = 1.0"

definition newItem :: "string \<Rightarrow> ObstacleType \<Rightarrow> int \<Rightarrow> Item" where
  "newItem i ty l =
     \<lparr> ident = i, otype = ty, lane = l, posZ = SPAWN_DISTANCE,
       collected = False, visible = True \<rparr>"

text \<open>What an item's frame asks of the audio controller and of the store.\<close>

datatype Action =
    Play Cue | CallEndGame | CallActivateBoost int | CallActivateMagnet int
  | CallIncrementScore real

text \<open>
  One frame of one item. \<open>snap\<close> is the store as the component last rendered it
  (\<open>speed\<close>, \<open>status\<close>, \<open>playerLane\<close>, \<open>isJumping\<close>, \<open>magnetActive\<close>),
  \<open>delta\<close> the frame time. The result is the item (\<open>None\<close> once \<open>onRemove\<close> has
  taken it off the list) and the calls made, in order.
\<close>

definition tickItem :: "GameState \<Rightarrow> real \<Rightarrow> Item \<Rightarrow> Item option \<times> Action list" where
  "tickItem snap delta it =
     (if status snap \<noteq> Playing then (Some it, [])
      else
        (let it1 = it\<lparr>posZ := posZ it + speed snap * 60 * delta\<rparr>
         in if posZ it1 > DESPAWN_DISTANCE then (None, [])
            else if \<not> collected it1 then
              (let distZ = \<bar>posZ it1\<bar>;
                   laneMatch = (lane it1 = playerLane snap);
                   withinZ = (distZ < COLLISION_THRESHOLD_Z)
               in if withinZ \<and> (laneMatch \<or> (magnetActive snap \<and> otype it1 = Coin)) then
                    (case otype it1 of
                       Rock \<Rightarrow>
                         if \<not> isJumping snap
                         then (Some (it1\<lparr>collected := True\<rparr>), [Play CrashCue, CallEndGame])
                         else (Some it1, [])
                     | Chilly \<Rightarrow>
                         (Some (it1\<lparr>collected := True, visible := False\<rparr>),
                          [Play CollectCue, CallActivateBoost 4000, CallIncrementScore 2])
                     | Coin \<Rightarrow>
                         (Some (it1\<lparr>collected := True, visible := False\<rparr>),
                          [Play CollectCue, CallIncrementScore 5])
                     | Magnet \<Rightarrow>
                         (Some (it1\<lparr>collected := True, visible := False\<rparr>),
                          [Play CollectCue, CallActivateMagnet 8000, CallIncrementScore 3]))
                  else (Some it1, []))
            else (Some it1, [])))"

fun perform :: "Action \<Rightarrow> World \<Rightarrow> World" where
  "perform (Play c) w = w"
| "perform CallEndGame w = endGame w"
| "perform (CallActivateBoost d) w = activateBoost d w"
| "perform (CallActivateMagnet d) w = activateMagnet d w"
| "perform (CallIncrementScore a) w = incrementScore a w"

fun performAll :: "Action list \<Rightarrow> World \<Rightarrow> World" where
  "performAll [] w = w"
| "performAll (a # as) w = performAll as (perform a w)"

text \<open>
  One frame of all items: every item's callback runs with the values of the same
  render, and its calls reach the store at once.
\<close>

fun tickAll :: "GameState \<Rightarrow> real \<Rightarrow> Item list \<Rightarrow> World \<Rightarrow> Item list \<times> World" where
  "tickAll snap delta [] w = ([], w)"
| "tickAll snap delta (it # its) w =
     (let (r, acts) = tickItem snap delta it;
          (its', w') = tickAll snap delta its (performAll acts w)
      in (case r of None \<Rightarrow> its' | Some it' \<Rightarrow> it' # its', w'))"

definition itemsFrame :: "real \<Rightarrow> Item list \<Rightarrow> World \<Rightarrow> Item list \<times> World" where
  "itemsFrame delta its w = tickAll (gs w) delta its w"

section \<open>Properties of the store\<close>

subsection \<open>Timers\<close>

lemmas store_defs = startGame_def endGame_def restartGame_def incrementScore_def increaseSpeed_def
  setPlayerState_def triggerScreenShake_def activateBoost_def activateMagnet_def setTimeout_def
  triggerHaptic_def

lemma fire_baseSpeed [simp]: "baseSpeed (fire c s) = baseSpeed s"
  by (cases c) simp_all

lemma fireAll_baseSpeed [simp]: "baseSpeed (fireAll ts s) = baseSpeed s"
  by (induction ts arbitrary: s) simp_all

lemma fire_score [simp]: "score (fire c s) = score s"
  by (cases c) simp_all

lemma fireAll_score [simp]: "score (fireAll ts s) = score s"
  by (induction ts arbitrary: s) simp_all

lemma fire_settled:
  "\<not> boostActive s \<Longrightarrow> speed s = baseSpeed s \<Longrightarrow>
   \<not> boostActive (fire c s) \<and> speed (fire c s) = baseSpeed (fire c s)"
  by (cases c) simp_all

lemma fireAll_settled:
  "\<not> boostActive s \<Longrightarrow> speed s = baseSpeed s \<Longrightarrow>
   \<not> boostActive (fireAll ts s) \<and> speed (fireAll ts s) = baseSpeed s"
proof (induction ts arbitrary: s)
  case Nil
  then show ?case by simp
next
  case (Cons t ts)
  from fire_settled [OF Cons.prems, of "callback t"]
  have "\<not> boostActive (fire (callback t) s)" "speed (fire (callback t) s) = baseSpeed (fire (callback t) s)"
    by simp_all
  from Cons.IH [OF this] show ?case by simp
qed

lemma fireAll_boost_expired:
  "\<exists>t \<in> set ts. callback t = BoostExpire \<Longrightarrow>
   \<not> boostActive (fireAll ts s) \<and> speed (fireAll ts s) = baseSpeed s"
proof (induction ts arbitrary: s)
  case Nil
  then show ?case by simp
next
  case (Cons t ts)
  show ?case
  proof (cases "callback t = BoostExpire")
    case True
    then have "\<not> boostActive (fire (callback t) s)" "speed (fire (callback t) s) = baseSpeed (fire (callback t) s)"
      by simp_all
    from fireAll_settled [OF this] show ?thesis by simp
  next
    case False
    with Cons.prems have "\<exists>t \<in> set ts. callback t = BoostExpire" by auto
    from Cons.IH [OF this, of "fire (callback t) s"] show ?thesis by simp
  qed
qed

lemma fireAll_magnet_expired:
  "\<exists>t \<in> set ts. callback t = MagnetExpire \<Longrightarrow> \<not> magnetActive (fireAll ts s)"
proof (induction ts arbitrary: s)
  case Nil
  then show ?case by simp
next
  case (Cons t ts)
  have keep: "\<not> magnetActive (fireAll us u)" if "\<not> magnetActive u" for us u
    using that
  proof (induction us arbitrary: u)
    case Nil
    then show ?case by simp
  next
    case (Cons a us)
    have "\<not> magnetActive (fire (callback a) u)" using Cons.prems by (cases "callback a") simp_all
    from Cons.IH [OF this] show ?case by simp
  qed
  show ?case
  proof (cases "callback t = MagnetExpire")
    case True
    then have "\<not> magnetActive (fire (callback t) s)" by simp
    from keep [OF this] show ?thesis by simp
  next
    case False
    with Cons.prems have "\<exists>t \<in> set ts. callback t = MagnetExpire" by auto
    from Cons.IH [OF this, of "fire (callback t) s"] show ?thesis by simp
  qed
qed

lemma advanceTo_boost_expired:
  assumes "\<exists>t \<in> set (timers w). fireAt t \<le> T \<and> callback t = BoostExpire"
  shows "\<not> boostActive (gs (advanceTo T w)) \<and> speed (gs (advanceTo T w)) = baseSpeed (gs w)"
proof -
  from assms have "\<exists>t \<in> set (sort_key fireAt (filter (\<lambda>t. fireAt t \<le> T) (timers w))). callback t = BoostExpire"
    by auto
  from fireAll_boost_expired [OF this] show ?thesis by (simp add: advanceTo_def)
qed

lemma advanceTo_magnet_expired:
  assumes "\<exists>t \<in> set (timers w). fireAt t \<le> T \<and> callback t = MagnetExpire"
  shows "\<not> magnetActive (gs (advanceTo T w))"
proof -
  from assms have "\<exists>t \<in> set (sort_key fireAt (filter (\<lambda>t. fireAt t \<le> T) (timers w))). callback t = MagnetExpire"
    by auto
  from fireAll_magnet_expired [OF this] show ?thesis by (simp add: advanceTo_def)
qed

lemma advanceTo_baseSpeed [simp]: "baseSpeed (gs (advanceTo T w)) = baseSpeed (gs w)"
  by (simp add: advanceTo_def)

lemma advanceTo_score [simp]: "score (gs (advanceTo T w)) = score (gs w)"
  by (simp add: advanceTo_def)

lemma advanceTo_now [simp]: "now (advanceTo T w) = max T (now w)"
  by (simp add: advanceTo_def)

lemma advanceTo_timers [simp]: "timers (advanceTo T w) = filter (\<lambda>t. \<not> fireAt t \<le> T) (timers w)"
  by (simp add: advanceTo_def)

subsection \<open>Idempotence of \<open>endGame\<close>\<close>

text \<open>
  Claim C2, as amended. \<open>endGame\<close> has no guard on \<open>status\<close>: every call, in
  every status, commits \<open>highScore = max(score, highScore)\<close>, writes that value to
  the storage, vibrates, sets \<open>status = GameOver\<close>, \<open>speed = 0\<close> and
  \<open>screenShake\<close>, changes no other field and sets one more 500 ms timer. A second
  call that follows the first with nothing in between leaves every field of the
  session and the stored value as the first call left them, and adds a second pending
  timer and a second vibration.
\<close>

theorem endGame_twice:
  "status (gs (endGame w)) = GameOver
   \<and> speed (gs (endGame w)) = 0
   \<and> stored (endGame w) = Some (max (score (gs w)) (highScore (gs w)))
   \<and> haptics (endGame w) = haptics w @ [[100, 50, 100]]
   \<and> timers (endGame w) = timers w @ [\<lparr>fireAt = now w + 500, callback = ClearShake\<rparr>]
   \<and> now (endGame w) = now w
   \<and> gs (endGame w) = (gs w)\<lparr>status := GameOver, speed := 0,
         highScore := max (score (gs w)) (highScore (gs w)), screenShake := True\<rparr>
   \<and> gs (endGame (endGame w)) = gs (endGame w)
   \<and> stored (endGame (endGame w)) = stored (endGame w)
   \<and> timers (endGame (endGame w)) = timers (endGame w) @ [\<lparr>fireAt = now w + 500, callback = ClearShake\<rparr>]
   \<and> haptics (endGame (endGame w)) = haptics (endGame w) @ [[100, 50, 100]]
   \<and> highScore (gs (endGame w)) = max (score (gs w)) (highScore (gs w))
   \<and> screenShake (gs (endGame w))"
  by (simp add: endGame_def setTimeout_def triggerHaptic_def Let_def)

text \<open>
  The claim as stated fails: with the status already \<open>GameOver\<close> and a score that
  grew after the first call, the second call commits a new high score.
\<close>

theorem endGame_twice_counterexample:
  "status (gs (run [StartGame, EndGame, IncrementScore 5] (initialWorld 0))) = GameOver
   \<and> highScore (gs (run [StartGame, EndGame, IncrementScore 5] (initialWorld 0))) = 0
   \<and> highScore (gs (endGame (run [StartGame, EndGame, IncrementScore 5] (initialWorld 0)))) = 5"
  by (simp add: store_defs initialWorld_def initialState_def)

text \<open>
  Such a second call happens in the program: the items of one frame all test the
  \<open>status\<close> of the same render, so two rocks and a coin that are within reach of the
  player in the same frame call \<open>endGame\<close>, \<open>incrementScore(5)\<close> and \<open>endGame\<close>
  in turn.
\<close>

lemma same_frame_double_endGame:
  "snd (itemsFrame (1 / 60)
      [(newItem ''a'' Rock 1)\<lparr>posZ := - 0.5\<rparr>, (newItem ''b'' Coin 1)\<lparr>posZ := - 0.3\<rparr>,
       (newItem ''c'' Rock 1)\<lparr>posZ := 0.2\<rparr>] (startGame (initialWorld 0)))
   = run [EndGame, IncrementScore 5, EndGame] (startGame (initialWorld 0))"
  by (simp add: itemsFrame_def tickItem_def newItem_def startGame_def initialWorld_def initialState_def
        DESPAWN_DISTANCE_def COLLISION_THRESHOLD_Z_def Let_def)

subsection \<open>Power-up timers\<close>

lemma activateBoost_fields:
  "timers (activateBoost d w) = timers w @ [\<lparr>fireAt = now w + nat d, callback = BoostExpire\<rparr>]"
  "now (activateBoost d w) = now w"
  "boostActive (gs (activateBoost d w))"
  by (simp_all add: activateBoost_def setTimeout_def triggerHaptic_def)

lemma activateMagnet_fields:
  "timers (activateMagnet d w) = timers w @ [\<lparr>fireAt = now w + nat d, callback = MagnetExpire\<rparr>]"
  "now (activateMagnet d w) = now w"
  "magnetActive (gs (activateMagnet d w))"
  by (simp_all add: activateMagnet_def setTimeout_def triggerHaptic_def)

text \<open>
  Claim C3, as amended. A call of \<open>activateBoost\<close> (of \<open>activateMagnet\<close>) cancels
  nothing: when a second call comes \<open>e\<close> ms after the first, before the first
  duration \<open>d1\<close> is over, both deactivations are pending, and the first one clears the
  flag \<open>d1\<close> ms after the first call, although the second call's window
  (\<open>e + d2 > d1\<close>) is not over.
\<close>

theorem retrigger_keeps_earlier_timer:
  assumes "e < nat d1" and "nat d1 < e + nat d2"
  shows "boostActive (gs (activateBoost d2 (wait e (activateBoost d1 w))))
       \<and> 2 \<le> length (filter (\<lambda>t. callback t = BoostExpire)
                  (timers (activateBoost d2 (wait e (activateBoost d1 w)))))
       \<and> \<not> boostActive (gs (advanceTo (now w + nat d1)
                  (activateBoost d2 (wait e (activateBoost d1 w)))))
       \<and> magnetActive (gs (activateMagnet d2 (wait e (activateMagnet d1 w))))
       \<and> 2 \<le> length (filter (\<lambda>t. callback t = MagnetExpire)
                  (timers (activateMagnet d2 (wait e (activateMagnet d1 w)))))
       \<and> \<not> magnetActive (gs (advanceTo (now w + nat d1)
                  (activateMagnet d2 (wait e (activateMagnet d1 w)))))"
proof -
  let ?b = "activateBoost d2 (wait e (activateBoost d1 w))"
  let ?m = "activateMagnet d2 (wait e (activateMagnet d1 w))"
  have tb: "timers ?b = filter (\<lambda>t. \<not> fireAt t \<le> now w + e) (timers w)
              @ [\<lparr>fireAt = now w + nat d1, callback = BoostExpire\<rparr>,
                 \<lparr>fireAt = now w + e + nat d2, callback = BoostExpire\<rparr>]"
    using assms(1) by (simp add: activateBoost_fields wait_def)
  have tm: "timers ?m = filter (\<lambda>t. \<not> fireAt t \<le> now w + e) (timers w)
              @ [\<lparr>fireAt = now w + nat d1, callback = MagnetExpire\<rparr>,
                 \<lparr>fireAt = now w + e + nat d2, callback = MagnetExpire\<rparr>]"
    using assms(1) by (simp add: activateMagnet_fields wait_def)
  have b1: "boostActive (gs ?b)" by (rule activateBoost_fields)
  have m1: "magnetActive (gs ?m)" by (rule activateMagnet_fields)
  have b2: "2 \<le> length (filter (\<lambda>t. callback t = BoostExpire) (timers ?b))"
    by (simp add: tb)
  have m2: "2 \<le> length (filter (\<lambda>t. callback t = MagnetExpire) (timers ?m))"
    by (simp add: tm)
  have "\<exists>t \<in> set (timers ?b). fireAt t \<le> now w + nat d1 \<and> callback t = BoostExpire"
    by (simp add: tb)
  from advanceTo_boost_expired [OF this]
  have b3: "\<not> boostActive (gs (advanceTo (now w + nat d1) ?b))" by simp
  have "\<exists>t \<in> set (timers ?m). fireAt t \<le> now w + nat d1 \<and> callback t = MagnetExpire"
    by (simp add: tm)
  from advanceTo_magnet_expired [OF this]
  have m3: "\<not> magnetActive (gs (advanceTo (now w + nat d1) ?m))" by simp
  from b1 b2 b3 m1 m2 m3 show ?thesis by blast
qed

theorem retrigger_keeps_earlier_timer_witness:
  "(3000::nat) < nat 4000 \<and> nat 4000 < (3000::nat) + nat 4000
   \<and> boostActive (gs (activateBoost 4000 (wait 3000 (activateBoost 4000 (startGame (initialWorld 0))))))
   \<and> \<not> boostActive (gs (advanceTo (now (startGame (initialWorld 0)) + nat 4000)
          (activateBoost 4000 (wait 3000 (activateBoost 4000 (startGame (initialWorld 0)))))))
   \<and> \<not> magnetActive (gs (advanceTo (now (startGame (initialWorld 0)) + nat 4000)
          (activateMagnet 4000 (wait 3000 (activateMagnet 4000 (startGame (initialWorld 0)))))))"
proof -
  have h1: "(3000::nat) < nat 4000" by simp
  have h2: "nat 4000 < (3000::nat) + nat 4000" by simp
  from retrigger_keeps_earlier_timer [OF h1 h2, of "startGame (initialWorld 0)"] h1 h2
  show ?thesis by blast
qed

theorem retrigger_counterexample:
  "boostActive (gs (run [StartGame, ActivateBoost 4000, Wait 3000] (initialWorld 0)))
   \<and> timers (run [StartGame, ActivateBoost 4000, Wait 3000, ActivateBoost 4000] (initialWorld 0))
       = [\<lparr>fireAt = 4000, callback = BoostExpire\<rparr>, \<lparr>fireAt = 7000, callback = BoostExpire\<rparr>]
   \<and> now (run [StartGame, ActivateBoost 4000, Wait 3000, ActivateBoost 4000, Wait 1000] (initialWorld 0)) = 4000
   \<and> \<not> boostActive (gs (run [StartGame, ActivateBoost 4000, Wait 3000, ActivateBoost 4000, Wait 1000] (initialWorld 0)))"
  by (simp add: store_defs initialWorld_def initialState_def wait_def advanceTo_def)

subsection \<open>The base speed\<close>

lemma reachable_baseSpeed: "reachable w \<Longrightarrow> 0.12 \<le> baseSpeed (gs w) \<and> baseSpeed (gs w) \<le> 0.4"
proof (induction rule: reachable.induct)
  case (init hs)
  show ?case by (simp add: initialWorld_def initialState_def)
next
  case (step w e)
  then show ?case by (cases e) (auto simp add: store_defs wait_def Let_def min_def)
qed

lemma funpow_reachable: "reachable w \<Longrightarrow> reachable ((increaseSpeed ^^ n) w)"
proof (induction n)
  case 0
  then show ?case by simp
next
  case (Suc n)
  from reachable.step [OF Suc.IH [OF Suc.prems], of IncreaseSpeed] show ?case by simp
qed

text \<open>
  Claim C5. From a reachable state, whatever the number \<open>n\<close> of calls of
  \<open>increaseSpeed\<close>, \<open>baseSpeed\<close> is at most 0.4 and the next call does not lower
  it; and no event other than \<open>startGame\<close> and \<open>restartGame\<close> lowers it.
\<close>

theorem baseSpeed_bounded_monotone:
  assumes "reachable w"
  shows "baseSpeed (gs ((increaseSpeed ^^ n) w)) \<le> 0.4
       \<and> baseSpeed (gs ((increaseSpeed ^^ n) w)) \<le> baseSpeed (gs ((increaseSpeed ^^ Suc n) w))
       \<and> (e \<noteq> StartGame \<and> e \<noteq> RestartGame \<longrightarrow> baseSpeed (gs w) \<le> baseSpeed (gs (applyEvent e w)))"
proof -
  have r: "reachable ((increaseSpeed ^^ n) w)" using assms by (rule funpow_reachable)
  from reachable_baseSpeed [OF r] have b: "baseSpeed (gs ((increaseSpeed ^^ n) w)) \<le> 0.4" by simp
  have m: "baseSpeed (gs ((increaseSpeed ^^ n) w)) \<le> baseSpeed (gs ((increaseSpeed ^^ Suc n) w))"
    using b by (simp add: increaseSpeed_def)
  from reachable_baseSpeed [OF assms] have "baseSpeed (gs w) \<le> 0.4" by simp
  then have "e \<noteq> StartGame \<and> e \<noteq> RestartGame \<longrightarrow> baseSpeed (gs w) \<le> baseSpeed (gs (applyEvent e w))"
    by (cases e) (auto simp add: store_defs wait_def Let_def)
  with b m show ?thesis by simp
qed

theorem baseSpeed_bounded_monotone_witness:
  "reachable (startGame (initialWorld 0))
   \<and> baseSpeed (gs ((increaseSpeed ^^ 3) (startGame (initialWorld 0)))) \<le> 0.4
   \<and> baseSpeed (gs ((increaseSpeed ^^ 3) (startGame (initialWorld 0))))
       \<le> baseSpeed (gs ((increaseSpeed ^^ Suc 3) (startGame (initialWorld 0))))
   \<and> IncreaseSpeed \<noteq> StartGame \<and> IncreaseSpeed \<noteq> RestartGame
   \<and> baseSpeed (gs (startGame (initialWorld 0)))
         \<le> baseSpeed (gs (applyEvent IncreaseSpeed (startGame (initialWorld 0))))"
proof -
  have r: "reachable (startGame (initialWorld 0))"
    using reachable.step [OF reachable.init, of StartGame 0] by simp
  from baseSpeed_bounded_monotone [OF r, of 3 IncreaseSpeed] r show ?thesis by simp
qed

subsection \<open>The score\<close>

lemma isNonNegInteger_add:
  assumes "isNonNegInteger x" and "isNonNegInteger a"
  shows "isNonNegInteger (x + a)"
proof -
  from assms obtain i j where x: "x = of_int i" and a: "a = of_int j"
    by (auto simp add: isNonNegInteger_def)
  from assms have "0 \<le> x" "0 \<le> a" by (simp_all add: isNonNegInteger_def)
  moreover have "x + a = of_int (i + j)" using x a by simp
  ultimately show ?thesis unfolding isNonNegInteger_def
    by (metis add_nonneg_nonneg floor_of_int)
qed

lemma applyEvent_score_natural:
  assumes "isNonNegInteger (score (gs w))" and "naturalAmount e"
  shows "isNonNegInteger (score (gs (applyEvent e w)))"
proof (cases e)
  case (IncrementScore a)
  with assms isNonNegInteger_add [of "score (gs w)" a] show ?thesis
    by (simp add: incrementScore_def triggerHaptic_def)
next
  case (Wait ms)
  with assms show ?thesis by (simp add: wait_def)
qed (use assms in \<open>simp_all add: store_defs Let_def isNonNegInteger_def\<close>)

lemma run_score_natural:
  "isNonNegInteger (score (gs w)) \<Longrightarrow> list_all naturalAmount es \<Longrightarrow>
   isNonNegInteger (score (gs (run es w)))"
proof (induction es arbitrary: w)
  case Nil
  then show ?case by simp
next
  case (Cons e es)
  from Cons.prems have "isNonNegInteger (score (gs (applyEvent e w)))"
    by (simp add: applyEvent_score_natural)
  with Cons.prems Cons.IH show ?case by simp
qed

text \<open>
  Claim C6, as amended. \<open>incrementScore\<close> adds its argument as it is. When every
  amount passed is a non-negative integer, the score is a non-negative integer after
  every sequence of events, and no event other than \<open>startGame\<close> and
  \<open>restartGame\<close> lowers it; these two set it to 0.
\<close>

theorem score_natural_monotone:
  "(list_all naturalAmount es \<longrightarrow> isNonNegInteger (score (gs (run es (initialWorld hs)))))
   \<and> (naturalAmount e \<and> e \<noteq> StartGame \<and> e \<noteq> RestartGame \<longrightarrow>
        score (gs w) \<le> score (gs (applyEvent e w)))
   \<and> score (gs (incrementScore amount w)) = score (gs w) + amount
   \<and> score (gs (startGame w)) = 0
   \<and> score (gs (restartGame w)) = 0"
proof -
  have "isNonNegInteger (score (gs (initialWorld hs)))"
    by (simp add: initialWorld_def initialState_def isNonNegInteger_def)
  then have a: "list_all naturalAmount es \<longrightarrow> isNonNegInteger (score (gs (run es (initialWorld hs))))"
    by (simp add: run_score_natural)
  have b: "naturalAmount e \<and> e \<noteq> StartGame \<and> e \<noteq> RestartGame \<longrightarrow>
        score (gs w) \<le> score (gs (applyEvent e w))"
    by (cases e) (simp_all add: store_defs wait_def Let_def isNonNegInteger_def)
  have c: "score (gs (incrementScore amount w)) = score (gs w) + amount"
    by (simp add: incrementScore_def triggerHaptic_def)
  have d: "score (gs (startGame w)) = 0 \<and> score (gs (restartGame w)) = 0"
    by (simp add: startGame_def restartGame_def)
  from a b c d show ?thesis by blast
qed

theorem score_natural_monotone_witness:
  "list_all naturalAmount [StartGame, IncrementScore 5, IncrementScore 2]
   \<and> isNonNegInteger (score (gs (run [StartGame, IncrementScore 5, IncrementScore 2] (initialWorld 0))))
   \<and> naturalAmount (IncrementScore 3) \<and> IncrementScore 3 \<noteq> StartGame \<and> IncrementScore 3 \<noteq> RestartGame
   \<and> score (gs (startGame (initialWorld 0)))
        \<le> score (gs (applyEvent (IncrementScore 3) (startGame (initialWorld 0))))"
proof -
  have h1: "list_all naturalAmount [StartGame, IncrementScore 5, IncrementScore 2]"
    by (simp add: isNonNegInteger_def)
  have h2: "naturalAmount (IncrementScore 3) \<and> IncrementScore 3 \<noteq> StartGame \<and> IncrementScore 3 \<noteq> RestartGame"
    by (simp add: isNonNegInteger_def)
  from score_natural_monotone [of "[StartGame, IncrementScore 5, IncrementScore 2]" 0
      "IncrementScore 3" "startGame (initialWorld 0)"] h1 h2
  show ?thesis by blast
qed

theorem score_counterexample:
  "status (gs (run [StartGame, IncrementScore 5] (initialWorld 0))) = Playing
   \<and> score (gs (run [StartGame, IncrementScore 5] (initialWorld 0))) = 5
   \<and> status (gs (run [StartGame, IncrementScore 5, IncrementScore (-7)] (initialWorld 0))) = Playing
   \<and> score (gs (run [StartGame, IncrementScore 5, IncrementScore (-7)] (initialWorld 0))) = -2"
  by (simp add: store_defs initialWorld_def initialState_def)

subsection \<open>The boost\<close>

lemma funpow_increaseSpeed_timers [simp]: "timers ((increaseSpeed ^^ n) w) = timers w"
  by (induction n) (simp_all add: increaseSpeed_def)

lemma funpow_increaseSpeed_now [simp]: "now ((increaseSpeed ^^ n) w) = now w"
  by (induction n) (simp_all add: increaseSpeed_def)

lemma funpow_increaseSpeed_baseSpeed:
  "baseSpeed (gs ((increaseSpeed ^^ n) w)) = ((\<lambda>b. min (b + 0.003) 0.4) ^^ n) (baseSpeed (gs w))"
  by (induction n) (simp_all add: increaseSpeed_def)

text \<open>
  Claim C7. \<open>activateBoost\<close> sets \<open>boostActive\<close> and \<open>speed = min(baseSpeed * 1.8,
  0.6)\<close> at once, which is 0.216 at the base speed 0.12, and sets one timer; when the
  timer fires after \<open>d\<close> ms, with \<open>n\<close> calls of \<open>increaseSpeed\<close> in between,
  \<open>speed\<close> is the base speed of that moment; with none, it is 0.12 again.
\<close>

theorem activateBoost_speed:
  "boostActive (gs (activateBoost d w))
   \<and> speed (gs (activateBoost d w)) = min (baseSpeed (gs w) * 1.8) 0.6
   \<and> (baseSpeed (gs w) = 0.12 \<longrightarrow> speed (gs (activateBoost 5000 w)) = 0.216)
   \<and> timers (activateBoost d w) = timers w @ [\<lparr>fireAt = now w + nat d, callback = BoostExpire\<rparr>]
   \<and> \<not> boostActive (gs (wait (nat d) ((increaseSpeed ^^ n) (activateBoost d w))))
   \<and> speed (gs (wait (nat d) ((increaseSpeed ^^ n) (activateBoost d w))))
       = baseSpeed (gs ((increaseSpeed ^^ n) (activateBoost d w)))
   \<and> baseSpeed (gs ((increaseSpeed ^^ n) (activateBoost d w)))
       = ((\<lambda>b. min (b + 0.003) 0.4) ^^ n) (baseSpeed (gs w))
   \<and> (baseSpeed (gs w) = 0.12 \<longrightarrow> speed (gs (wait 5000 (activateBoost 5000 w))) = 0.12)"
proof -
  have a: "boostActive (gs (activateBoost d w))"
    by (simp add: activateBoost_def setTimeout_def triggerHaptic_def)
  have b: "speed (gs (activateBoost d w)) = min (baseSpeed (gs w) * 1.8) 0.6" for d
    by (simp add: activateBoost_def setTimeout_def triggerHaptic_def)
  have c: "baseSpeed (gs w) = 0.12 \<longrightarrow> speed (gs (activateBoost 5000 w)) = 0.216"
    by (simp add: b)
  have t: "timers (activateBoost d w) = timers w @ [\<lparr>fireAt = now w + nat d, callback = BoostExpire\<rparr>]" for d
    by (simp add: activateBoost_def setTimeout_def triggerHaptic_def)
  have n: "now (activateBoost d w) = now w" for d
    by (simp add: activateBoost_def setTimeout_def triggerHaptic_def)
  have bs: "baseSpeed (gs (activateBoost d w)) = baseSpeed (gs w)" for d
    by (simp add: activateBoost_def setTimeout_def triggerHaptic_def)
  have due: "\<exists>t \<in> set (timers ((increaseSpeed ^^ k) (activateBoost d w))).
          fireAt t \<le> now ((increaseSpeed ^^ k) (activateBoost d w)) + nat d \<and> callback t = BoostExpire" for d k
    by (simp add: t n)
  have e: "\<not> boostActive (gs (wait (nat d) ((increaseSpeed ^^ k) (activateBoost d w))))
      \<and> speed (gs (wait (nat d) ((increaseSpeed ^^ k) (activateBoost d w))))
         = baseSpeed (gs ((increaseSpeed ^^ k) (activateBoost d w)))" for d k
    unfolding wait_def by (rule advanceTo_boost_expired [OF due])
  have f: "baseSpeed (gs ((increaseSpeed ^^ n) (activateBoost d w)))
       = ((\<lambda>b. min (b + 0.003) 0.4) ^^ n) (baseSpeed (gs w))"
    by (simp add: funpow_increaseSpeed_baseSpeed bs)
  have g: "baseSpeed (gs w) = 0.12 \<longrightarrow> speed (gs (wait 5000 (activateBoost 5000 w))) = 0.12"
    using e [of 5000 0] by (simp add: bs)
  from a b c t e [of d n] f g show ?thesis by blast
qed

theorem activateBoost_speed_witness:
  "baseSpeed (gs (startGame (initialWorld 0))) = 0.12
   \<and> speed (gs (activateBoost 5000 (startGame (initialWorld 0)))) = 0.216
   \<and> speed (gs (wait 5000 (activateBoost 5000 (startGame (initialWorld 0))))) = 0.12
   \<and> speed (gs (wait (nat 5000) ((increaseSpeed ^^ 2) (activateBoost 5000 (startGame (initialWorld 0)))))) = 0.126"
proof -
  have h: "baseSpeed (gs (startGame (initialWorld 0))) = 0.12"
    by (simp add: startGame_def)
  from activateBoost_speed [of 5000 "startGame (initialWorld 0)" 2] h
  show ?thesis by (simp add: startGame_def numeral_2_eq_2)
qed

subsection \<open>The effective speed\<close>

lemma fireAll_no_boost:
  "\<forall>t \<in> set ts. callback t \<noteq> BoostExpire \<Longrightarrow>
   speed (fireAll ts s) = speed s \<and> boostActive (fireAll ts s) = boostActive s"
proof (induction ts arbitrary: s)
  case Nil
  then show ?case by simp
next
  case (Cons t ts)
  then have "callback t \<noteq> BoostExpire" and rest: "\<forall>t \<in> set ts. callback t \<noteq> BoostExpire"
    by simp_all
  then have "speed (fire (callback t) s) = speed s" "boostActive (fire (callback t) s) = boostActive s"
    by (cases "callback t"; simp)+
  with Cons.IH [OF rest, of "fire (callback t) s"] show ?case by simp
qed

text \<open>
  Claim C1, as amended. Right after \<open>startGame\<close>, \<open>restartGame\<close> and
  \<open>activateBoost\<close>, and after the clock has passed a pending boost expiry, \<open>speed\<close>
  is \<open>min(baseSpeed * 1.8, 0.6)\<close> when \<open>boostActive\<close> holds and \<open>baseSpeed\<close>
  when it does not, whatever the status; right after \<open>endGame\<close> the status is
  \<open>GameOver\<close> and \<open>speed\<close> is 0; \<open>incrementScore\<close>, \<open>setPlayerState\<close>,
  \<open>triggerScreenShake\<close>, \<open>activateMagnet\<close> and the firing of timers other than a
  boost expiry leave \<open>speed\<close>, \<open>baseSpeed\<close> and \<open>boostActive\<close> as they were.
  Nothing is said of \<open>speed\<close> after \<open>increaseSpeed\<close>.
\<close>

theorem speed_settled:
  "speed (gs (startGame w)) = effectiveSpeed (gs (startGame w))
   \<and> speed (gs (restartGame w)) = effectiveSpeed (gs (restartGame w))
   \<and> speed (gs (activateBoost d w)) = effectiveSpeed (gs (activateBoost d w))
   \<and> ((\<exists>t \<in> set (timers w). fireAt t \<le> T \<and> callback t = BoostExpire) \<longrightarrow>
        speed (gs (advanceTo T w)) = effectiveSpeed (gs (advanceTo T w)))
   \<and> status (gs (endGame w)) = GameOver \<and> speed (gs (endGame w)) = 0
   \<and> (e \<in> {IncrementScore a, SetPlayerState l j, TriggerScreenShake, ActivateMagnet m} \<longrightarrow>
        speed (gs (applyEvent e w)) = speed (gs w)
        \<and> baseSpeed (gs (applyEvent e w)) = baseSpeed (gs w)
        \<and> boostActive (gs (applyEvent e w)) = boostActive (gs w))
   \<and> ((\<forall>t \<in> set (timers w). fireAt t \<le> T' \<longrightarrow> callback t \<noteq> BoostExpire) \<longrightarrow>
        speed (gs (advanceTo T' w)) = speed (gs w)
        \<and> baseSpeed (gs (advanceTo T' w)) = baseSpeed (gs w)
        \<and> boostActive (gs (advanceTo T' w)) = boostActive (gs w))"
proof -
  have a: "speed (gs (startGame w)) = effectiveSpeed (gs (startGame w))"
    by (simp add: startGame_def effectiveSpeed_def)
  have b: "speed (gs (restartGame w)) = effectiveSpeed (gs (restartGame w))"
    by (simp add: restartGame_def effectiveSpeed_def)
  have c: "speed (gs (activateBoost d w)) = effectiveSpeed (gs (activateBoost d w))"
    by (simp add: activateBoost_def setTimeout_def triggerHaptic_def effectiveSpeed_def)
  have x: "(\<exists>t \<in> set (timers w). fireAt t \<le> T \<and> callback t = BoostExpire) \<longrightarrow>
        speed (gs (advanceTo T w)) = effectiveSpeed (gs (advanceTo T w))"
    using advanceTo_boost_expired [of w T] by (simp add: effectiveSpeed_def)
  have g: "status (gs (endGame w)) = GameOver \<and> speed (gs (endGame w)) = 0"
    by (simp add: endGame_def setTimeout_def triggerHaptic_def Let_def)
  have k: "e \<in> {IncrementScore a, SetPlayerState l j, TriggerScreenShake, ActivateMagnet m} \<longrightarrow>
        speed (gs (applyEvent e w)) = speed (gs w)
        \<and> baseSpeed (gs (applyEvent e w)) = baseSpeed (gs w)
        \<and> boostActive (gs (applyEvent e w)) = boostActive (gs w)"
    by (auto simp add: store_defs Let_def)
  have n: "(\<forall>t \<in> set (timers w). fireAt t \<le> T' \<longrightarrow> callback t \<noteq> BoostExpire) \<longrightarrow>
        speed (gs (advanceTo T' w)) = speed (gs w)
        \<and> baseSpeed (gs (advanceTo T' w)) = baseSpeed (gs w)
        \<and> boostActive (gs (advanceTo T' w)) = boostActive (gs w)"
  proof
    assume h: "\<forall>t \<in> set (timers w). fireAt t \<le> T' \<longrightarrow> callback t \<noteq> BoostExpire"
    then have "\<forall>t \<in> set (sort_key fireAt (filter (\<lambda>t. fireAt t \<le> T') (timers w))). callback t \<noteq> BoostExpire"
      by simp
    from fireAll_no_boost [OF this, of "gs w"]
    show "speed (gs (advanceTo T' w)) = speed (gs w)
        \<and> baseSpeed (gs (advanceTo T' w)) = baseSpeed (gs w)
        \<and> boostActive (gs (advanceTo T' w)) = boostActive (gs w)"
      by (simp add: advanceTo_def)
  qed
  from a b c x g k n show ?thesis by blast
qed

theorem speed_settled_witness:
  "(\<lparr>fireAt = 4000, callback = BoostExpire\<rparr> \<in> set (timers (activateBoost 4000 (startGame (initialWorld 0))))
      \<and> fireAt \<lparr>fireAt = 4000, callback = BoostExpire\<rparr> \<le> (4000::nat))
   \<and> speed (gs (advanceTo 4000 (activateBoost 4000 (startGame (initialWorld 0))))) = 0.12
   \<and> effectiveSpeed (gs (advanceTo 4000 (activateBoost 4000 (startGame (initialWorld 0))))) = 0.12
   \<and> speed (gs (activateBoost 4000 (startGame (initialWorld 0)))) = 0.216
   \<and> speed (gs (applyEvent (IncrementScore 5) (activateBoost 4000 (startGame (initialWorld 0))))) = 0.216
   \<and> speed (gs (advanceTo 3000 (activateBoost 4000 (startGame (initialWorld 0))))) = 0.216
   \<and> boostActive (gs (advanceTo 3000 (activateBoost 4000 (startGame (initialWorld 0)))))"
proof -
  have t: "timers (activateBoost 4000 (startGame (initialWorld 0)))
             = [\<lparr>fireAt = 4000, callback = BoostExpire\<rparr>]"
    by (simp add: activateBoost_def setTimeout_def triggerHaptic_def startGame_def initialWorld_def)
  have v: "speed (gs (activateBoost 4000 (startGame (initialWorld 0)))) = 0.216
           \<and> baseSpeed (gs (activateBoost 4000 (startGame (initialWorld 0)))) = 0.12
           \<and> boostActive (gs (activateBoost 4000 (startGame (initialWorld 0))))"
    by (simp add: activateBoost_def setTimeout_def triggerHaptic_def startGame_def)
  have d: "\<exists>x \<in> set (timers (activateBoost 4000 (startGame (initialWorld 0)))).
             fireAt x \<le> 4000 \<and> callback x = BoostExpire"
    by (simp add: t)
  have n: "\<forall>x \<in> set (timers (activateBoost 4000 (startGame (initialWorld 0)))).
             fireAt x \<le> 3000 \<longrightarrow> callback x \<noteq> BoostExpire"
    by (simp add: t)
  have m: "IncrementScore 5 \<in> {IncrementScore 5, SetPlayerState 0 False, TriggerScreenShake, ActivateMagnet 0}"
    by simp
  note s = speed_settled [of "activateBoost 4000 (startGame (initialWorld 0))" 4000 4000
      "IncrementScore 5" 5 0 False 0 3000]
  from s d have x: "speed (gs (advanceTo 4000 (activateBoost 4000 (startGame (initialWorld 0)))))
      = effectiveSpeed (gs (advanceTo 4000 (activateBoost 4000 (startGame (initialWorld 0)))))"
    by blast
  from s m have y: "speed (gs (applyEvent (IncrementScore 5) (activateBoost 4000 (startGame (initialWorld 0)))))
      = speed (gs (activateBoost 4000 (startGame (initialWorld 0))))"
    by blast
  from s n have z: "speed (gs (advanceTo 3000 (activateBoost 4000 (startGame (initialWorld 0)))))
      = speed (gs (activateBoost 4000 (startGame (initialWorld 0))))
     \<and> boostActive (gs (advanceTo 3000 (activateBoost 4000 (startGame (initialWorld 0)))))
      = boostActive (gs (activateBoost 4000 (startGame (initialWorld 0))))"
    by blast
  have e: "effectiveSpeed (gs (advanceTo 4000 (activateBoost 4000 (startGame (initialWorld 0))))) = 0.12"
    by (simp add: effectiveSpeed_def advanceTo_def t activateBoost_def setTimeout_def
        triggerHaptic_def startGame_def initialWorld_def initialState_def)
  from x y z e t v show ?thesis by simp
qed

text \<open>
  The claim as stated fails: a boost picked up before the crash expires after it, and
  its callback writes the base speed into \<open>speed\<close> although the status is
  \<open>GameOver\<close>.
\<close>

theorem gameover_speed_counterexample:
 "status (gs (run [StartGame, ActivateBoost 4000, EndGame, Wait 4000] (initialWorld 0))) = GameOver
  \<and> speed (gs (run [StartGame, ActivateBoost 4000, EndGame, Wait 4000] (initialWorld 0))) = 0.12
  \<and> speed (gs (run [StartGame, ActivateBoost 4000, EndGame, Wait 4000] (initialWorld 0))) \<noteq> 0"
  by (simp add: store_defs initialWorld_def initialState_def wait_def advanceTo_def)

text \<open>
  \<open>increaseSpeed\<close> computes both fields from the state before the call, so the speed
  it writes is the one of the base speed it has just replaced.
\<close>

lemma increaseSpeed_lags:
  "baseSpeed (gs (increaseSpeed (startGame (initialWorld 0)))) = 0.123
   \<and> \<not> boostActive (gs (increaseSpeed (startGame (initialWorld 0))))
   \<and> speed (gs (increaseSpeed (startGame (initialWorld 0)))) = 0.12"
  by (simp add: increaseSpeed_def startGame_def)

section \<open>Properties of the collision test\<close>

text \<open>
  Claim C4. In a frame of an item whose component sees \<open>status = Playing\<close>, with the
  position taken after the move of that frame: an item not yet collected makes calls
  exactly when its distance is under the threshold and its lane is the player's, or the
  magnet is active and it is a coin, and, for a rock, the player is not jumping; a rock
  calls \<open>endGame\<close> exactly then and no other type ever does; a collected item makes
  no call; and the flag \<open>collected\<close> is set exactly when calls are made and is never
  cleared.
\<close>

theorem collision_dispatch:
  assumes "status snap = Playing"
  shows "(\<not> collected it \<longrightarrow>
            (snd (tickItem snap delta it) \<noteq> [] \<longleftrightarrow>
               \<bar>posZ it + speed snap * 60 * delta\<bar> < COLLISION_THRESHOLD_Z
               \<and> (lane it = playerLane snap \<or> (magnetActive snap \<and> otype it = Coin))
               \<and> (otype it = Rock \<longrightarrow> \<not> isJumping snap)))
       \<and> (\<not> collected it \<and> otype it = Rock \<longrightarrow>
            (CallEndGame \<in> set (snd (tickItem snap delta it)) \<longleftrightarrow>
               \<bar>posZ it + speed snap * 60 * delta\<bar> < COLLISION_THRESHOLD_Z
               \<and> lane it = playerLane snap \<and> \<not> isJumping snap))
       \<and> (otype it \<noteq> Rock \<longrightarrow> CallEndGame \<notin> set (snd (tickItem snap delta it)))
       \<and> (collected it \<longrightarrow> snd (tickItem snap delta it) = [])
       \<and> (\<forall>it'. fst (tickItem snap delta it) = Some it' \<longrightarrow>
            (collected it' \<longleftrightarrow> collected it \<or> snd (tickItem snap delta it) \<noteq> []))"
proof -
  have far: "\<not> \<bar>posZ it + speed snap * 60 * delta\<bar> < COLLISION_THRESHOLD_Z"
    if "posZ it + speed snap * 60 * delta > DESPAWN_DISTANCE"
    using that by (simp add: COLLISION_THRESHOLD_Z_def DESPAWN_DISTANCE_def)
  show ?thesis
  proof (cases "posZ it + speed snap * 60 * delta > DESPAWN_DISTANCE")
    case True
    with assms far show ?thesis by (simp add: tickItem_def Let_def)
  next
    case False
    with assms show ?thesis
      by (cases "otype it") (auto simp add: tickItem_def Let_def)
  qed
qed

theorem collision_dispatch_witness:
  "status (gs (startGame (initialWorld 0))) = Playing
   \<and> \<not> collected ((newItem ''r1'' Rock 1)\<lparr>posZ := - 0.5\<rparr>)
   \<and> otype ((newItem ''r1'' Rock 1)\<lparr>posZ := - 0.5\<rparr>) = Rock
   \<and> snd (tickItem (gs (startGame (initialWorld 0))) (1 / 60) ((newItem ''r1'' Rock 1)\<lparr>posZ := - 0.5\<rparr>))
       = [Play CrashCue, CallEndGame]
   \<and> CallEndGame \<in> set (snd (tickItem (gs (startGame (initialWorld 0))) (1 / 60)
        ((newItem ''r1'' Rock 1)\<lparr>posZ := - 0.5\<rparr>)))
   \<and> snd (tickItem ((gs (startGame (initialWorld 0)))\<lparr>isJumping := True\<rparr>) (1 / 60)
        ((newItem ''r1'' Rock 1)\<lparr>posZ := - 0.5\<rparr>)) = []
   \<and> otype ((newItem ''c1'' Coin 0)\<lparr>posZ := 0.3\<rparr>) \<noteq> Rock
   \<and> snd (tickItem ((gs (startGame (initialWorld 0)))\<lparr>magnetActive := True, isJumping := True\<rparr>) (1 / 60)
        ((newItem ''c1'' Coin 0)\<lparr>posZ := 0.3\<rparr>)) = [Play CollectCue, CallIncrementScore 5]
   \<and> collected ((newItem ''c2'' Coin 1)\<lparr>posZ := 0, collected := True\<rparr>)
   \<and> snd (tickItem (gs (startGame (initialWorld 0))) (1 / 60)
        ((newItem ''c2'' Coin 1)\<lparr>posZ := 0, collected := True\<rparr>)) = []"
proof -
  have h: "status (gs (startGame (initialWorld 0))) = Playing" by (simp add: startGame_def)
  have hj: "status ((gs (startGame (initialWorld 0)))\<lparr>isJumping := True\<rparr>) = Playing"
    by (simp add: startGame_def)
  have hm: "status ((gs (startGame (initialWorld 0)))\<lparr>magnetActive := True, isJumping := True\<rparr>) = Playing"
    by (simp add: startGame_def)
  from collision_dispatch [OF h, of "(newItem ''r1'' Rock 1)\<lparr>posZ := - 0.5\<rparr>" "1 / 60"]
    collision_dispatch [OF hj, of "(newItem ''r1'' Rock 1)\<lparr>posZ := - 0.5\<rparr>" "1 / 60"]
    collision_dispatch [OF hm, of "(newItem ''c1'' Coin 0)\<lparr>posZ := 0.3\<rparr>" "1 / 60"]
    collision_dispatch [OF h, of "(newItem ''c2'' Coin 1)\<lparr>posZ := 0, collected := True\<rparr>" "1 / 60"]
    h
  show ?thesis
    by (simp add: tickItem_def newItem_def startGame_def initialWorld_def initialState_def
        DESPAWN_DISTANCE_def COLLISION_THRESHOLD_Z_def Let_def)
qed

section \<open>Properties of the player motion model\<close>

text \<open>
  Claim C8. \<open>jump\<close> leaves a jumping player as it is and plays nothing. In a frame
  \<open>t\<close> ms after the start of the jump the height is
  \<open>4 * H * (t/D) * (1 - t/D)\<close>, with \<open>H = 2\<close> and \<open>D = 0.45\<close> s, while
  \<open>t < D\<close>, and the jump goes on; from \<open>t = D\<close> on the height is 0 and the flag is
  cleared. So the height is 0 at the start, 2 after 225 ms and 0 after 450 ms.
\<close>

theorem jump_arc:
  "(isJumpingP p \<longrightarrow> jump st t p = (p, []))
   \<and> (isJumpingP p \<and> real_of_int (t - jumpStartTime p) / 1000 < 0.45 \<longrightarrow>
        posY (playerFrame st t p)
          = 4 * 2 * ((real_of_int (t - jumpStartTime p) / 1000) / 0.45)
              * (1 - (real_of_int (t - jumpStartTime p) / 1000) / 0.45)
        \<and> isJumpingP (playerFrame st t p))
   \<and> (isJumpingP p \<and> 0.45 \<le> real_of_int (t - jumpStartTime p) / 1000 \<longrightarrow>
        posY (playerFrame st t p) = 0 \<and> \<not> isJumpingP (playerFrame st t p))
   \<and> (isJumpingP p \<and> t = jumpStartTime p \<longrightarrow> posY (playerFrame st t p) = 0)
   \<and> (isJumpingP p \<and> t = jumpStartTime p + 225 \<longrightarrow> posY (playerFrame st t p) = 2)
   \<and> (isJumpingP p \<and> t = jumpStartTime p + 450 \<longrightarrow>
        posY (playerFrame st t p) = 0 \<and> \<not> isJumpingP (playerFrame st t p))
   \<and> jumpPhysics 0 = (0, True) \<and> jumpPhysics (0.45 / 2) = (2, True) \<and> jumpPhysics 0.45 = (0, False)"
  by (simp add: jump_def playerFrame_def jumpPhysics_def JUMP_DURATION_def JUMP_HEIGHT_def Let_def)

theorem jump_arc_witness:
  "isJumpingP (initialPlayer\<lparr>isJumpingP := True, jumpStartTime := 1000\<rparr>)
   \<and> jump Playing 1225 (initialPlayer\<lparr>isJumpingP := True, jumpStartTime := 1000\<rparr>)
       = (initialPlayer\<lparr>isJumpingP := True, jumpStartTime := 1000\<rparr>, [])
   \<and> posY (playerFrame Playing 1000 (initialPlayer\<lparr>isJumpingP := True, jumpStartTime := 1000\<rparr>)) = 0
   \<and> posY (playerFrame Playing 1225 (initialPlayer\<lparr>isJumpingP := True, jumpStartTime := 1000\<rparr>)) = 2
   \<and> isJumpingP (playerFrame Playing 1225 (initialPlayer\<lparr>isJumpingP := True, jumpStartTime := 1000\<rparr>))
   \<and> posY (playerFrame Playing 1450 (initialPlayer\<lparr>isJumpingP := True, jumpStartTime := 1000\<rparr>)) = 0
   \<and> \<not> isJumpingP (playerFrame Playing 1450 (initialPlayer\<lparr>isJumpingP := True, jumpStartTime := 1000\<rparr>))"
  using jump_arc [of "initialPlayer\<lparr>isJumpingP := True, jumpStartTime := 1000\<rparr>" Playing 1225]
    jump_arc [of "initialPlayer\<lparr>isJumpingP := True, jumpStartTime := 1000\<rparr>" Playing 1000]
    jump_arc [of "initialPlayer\<lparr>isJumpingP := True, jumpStartTime := 1000\<rparr>" Playing 1450]
  by (simp add: initialPlayer_def)

text \<open>
  Claim C9. While playing, \<open>moveLeft\<close> keeps lane 0 and lowers any lane above 0 by
  one, \<open>moveRight\<close> keeps lane 2 and raises any lane below 2 by one, and both change
  nothing else; when the status is not \<open>Playing\<close>, \<open>moveLeft\<close>, \<open>moveRight\<close> and
  \<open>jump\<close> change nothing.
\<close>

theorem lane_clamp:
  "(laneIndex p = 0 \<longrightarrow> laneIndex (moveLeft Playing p) = 0)
   \<and> (laneIndex p = 2 \<longrightarrow> laneIndex (moveRight Playing p) = 2)
   \<and> (0 < laneIndex p \<longrightarrow> laneIndex (moveLeft Playing p) = laneIndex p - 1)
   \<and> (laneIndex p < 2 \<longrightarrow> laneIndex (moveRight Playing p) = laneIndex p + 1)
   \<and> moveLeft Playing p = p\<lparr>laneIndex := laneIndex (moveLeft Playing p)\<rparr>
   \<and> moveRight Playing p = p\<lparr>laneIndex := laneIndex (moveRight Playing p)\<rparr>
   \<and> (st \<noteq> Playing \<longrightarrow> moveLeft st p = p \<and> moveRight st p = p \<and> jump st t p = (p, []))"
  by (simp add: moveLeft_def moveRight_def jump_def LANES_def)

theorem lane_clamp_witness:
  "laneIndex (initialPlayer\<lparr>laneIndex := 0\<rparr>) = 0
   \<and> laneIndex (moveLeft Playing (initialPlayer\<lparr>laneIndex := 0\<rparr>)) = 0
   \<and> laneIndex (initialPlayer\<lparr>laneIndex := 2\<rparr>) = 2
   \<and> laneIndex (moveRight Playing (initialPlayer\<lparr>laneIndex := 2\<rparr>)) = 2
   \<and> 0 < laneIndex initialPlayer \<and> laneIndex (moveLeft Playing initialPlayer) = 0
   \<and> laneIndex initialPlayer < 2 \<and> laneIndex (moveRight Playing initialPlayer) = 2
   \<and> GameOver \<noteq> Playing
   \<and> moveLeft GameOver initialPlayer = initialPlayer
   \<and> moveRight GameOver initialPlayer = initialPlayer
   \<and> jump GameOver 1000 initialPlayer = (initialPlayer, [])"
  using lane_clamp [of "initialPlayer\<lparr>laneIndex := 0\<rparr>" GameOver 1000]
    lane_clamp [of "initialPlayer\<lparr>laneIndex := 2\<rparr>" GameOver 1000]
    lane_clamp [of initialPlayer GameOver 1000]
  by (simp add: initialPlayer_def)

text \<open>The lane index of the component stays in range, whatever the events.\<close>

lemma playerReachable_lane: "playerReachable p \<Longrightarrow> laneIndex p \<in> {0, 1, 2}"
proof (induction rule: playerReachable.induct)
  case pinit
  show ?case by (simp add: initialPlayer_def)
next
  case (pstep p st e)
  then show ?case
    by (cases e)
       (auto simp add: jump_def moveLeft_def moveRight_def playerFrame_def resetOnStatus_def
          LANES_def Let_def split: prod.splits)
qed

text \<open>
  Claim C10. \<open>setPlayerState\<close> stores its two arguments as they are, for every
  integer lane, 7 and -1 included, and changes nothing else; the lane in the store is
  in \<open>{0, 1, 2}\<close> because the lane index of the player component, which is what the
  component passes, always is.
\<close>

theorem setPlayerState_unchecked:
  "playerLane (gs (setPlayerState l jumping w)) = l
   \<and> isJumping (gs (setPlayerState l jumping w)) = jumping
   \<and> setPlayerState l jumping w = w\<lparr>gs := (gs w)\<lparr>playerLane := l, isJumping := jumping\<rparr>\<rparr>
   \<and> playerLane (gs (setPlayerState 7 jumping w)) = 7
   \<and> playerLane (gs (setPlayerState (- 1) jumping w)) = - 1
   \<and> (playerReachable p \<longrightarrow> laneIndex p \<in> {0, 1, 2} \<and> playerLane (gs (syncPlayer p w)) \<in> {0, 1, 2})"
  using playerReachable_lane [of p]
  by (simp add: setPlayerState_def syncPlayer_def)

theorem setPlayerState_unchecked_witness:
  "playerReachable (moveRight Playing (moveRight Playing initialPlayer))
   \<and> laneIndex (moveRight Playing (moveRight Playing initialPlayer)) = 2
   \<and> playerLane (gs (syncPlayer (moveRight Playing (moveRight Playing initialPlayer)) (initialWorld 0))) = 2
   \<and> playerLane (gs (setPlayerState 7 True (initialWorld 0))) = 7"
proof -
  have r1: "playerReachable (moveRight Playing initialPlayer)"
    using playerReachable.pstep [OF playerReachable.pinit, of Playing MoveRight] by simp
  have r: "playerReachable (moveRight Playing (moveRight Playing initialPlayer))"
    using playerReachable.pstep [OF r1, of Playing MoveRight] by simp
  from setPlayerState_unchecked [of 7 True "initialWorld 0"
      "moveRight Playing (moveRight Playing initialPlayer)"] r
  show ?thesis
    by (simp add: moveRight_def initialPlayer_def LANES_def syncPlayer_def setPlayerState_def)
qed

end
